theory Spec2Isabelle
  imports Complex_Main "HOL-Library.Multiset"
begin

section \<open>Python values and errors\<close>

text \<open>
  The exceptions the qutrit operations can raise.  A function that may raise returns
  \<open>pyerror + 'a\<close>, with \<open>Inl\<close> for the exception.  \<open>TypeError\<close> and \<open>IndexError\<close> are the
  exceptions Python and numpy raise themselves (\<open>len\<close> of an integer, subscripting an
  integer, an array index out of bounds); the others are raised by the module's own
  \<open>raise\<close> statements.
\<close>

datatype pyerror = ValueError | TypeError | IndexError | WireError | AdjointUndefinedError

text \<open>
  A value passed as \<open>subspace\<close> or \<open>control_value\<close>: \<open>None\<close>, a bare integer, or a
  sequence (list or tuple) of integers.
\<close>

datatype pyval = PyNone | PyInt int | PySeq "int list"

text \<open>
  An exponent handed to \<open>pow\<close>: a Python \<open>int\<close> or a \<open>float\<close> (floats are modelled by
  the real numbers).  \<open>isinstance(z, int)\<close> is the test for the first constructor.
\<close>

datatype pynum = PyIntNum int | PyFloat real

fun isinstance_int :: "pynum \<Rightarrow> bool" where
  "isinstance_int (PyIntNum z) = True"
| "isinstance_int (PyFloat r) = False"

text \<open>Python's \<open>z % p\<close> for a positive integer \<open>p\<close>: the result has the sign of \<open>p\<close>.\<close>

fun py_mod :: "pynum \<Rightarrow> int \<Rightarrow> pynum" where
  "py_mod (PyIntNum z) p = PyIntNum (z mod p)"
| "py_mod (PyFloat r) p = PyFloat (r - of_int p * of_int \<lfloor>r / of_int p\<rfloor>)"

section \<open>Matrices\<close>

text \<open>
  A numpy matrix is the list of its rows.  The entries of \<open>complex128\<close>, \<open>float64\<close> and
  integer arrays are all embedded in the complex numbers, and arithmetic on them is exact.
\<close>

type_synonym matrix = "complex list list"

definition np_eye :: "nat \<Rightarrow> matrix" where
  "np_eye n = map (\<lambda>i. map (\<lambda>j. if i = j then 1 else 0) [0..<n]) [0..<n]"

definition np_zeros :: "nat \<Rightarrow> nat \<Rightarrow> matrix" where
  "np_zeros n m = replicate n (replicate m 0)"

definition np_diag :: "complex list \<Rightarrow> matrix" where
  "np_diag ds = map (\<lambda>i. map (\<lambda>j. if i = j then ds ! i else 0) [0..<length ds]) [0..<length ds]"

definition dot :: "complex list \<Rightarrow> complex list \<Rightarrow> complex" where
  "dot u v = sum_list (map2 (*) u v)"

definition column :: "matrix \<Rightarrow> nat \<Rightarrow> complex list" where
  "column B j = map (\<lambda>r. r ! j) B"

definition num_columns :: "matrix \<Rightarrow> nat" where
  "num_columns B = (case B of [] \<Rightarrow> 0 | r # _ \<Rightarrow> length r)"

definition mat_mul :: "matrix \<Rightarrow> matrix \<Rightarrow> matrix" where
  "mat_mul A B = map (\<lambda>r. map (\<lambda>j. dot r (column B j)) [0..<num_columns B]) A"

definition mat_vec :: "matrix \<Rightarrow> complex list \<Rightarrow> complex list" where
  "mat_vec A v = map (\<lambda>r. dot r v) A"

definition unit_vec :: "nat \<Rightarrow> nat \<Rightarrow> complex list" where
  "unit_vec n i = map (\<lambda>j. if j = i then 1 else 0) [0..<n]"

text \<open>Repeated composition: the \<open>n\<close>-fold product of a square matrix with itself.\<close>

primrec matrix_power :: "matrix \<Rightarrow> nat \<Rightarrow> matrix" where
  "matrix_power A 0 = np_eye (length A)"
| "matrix_power A (Suc n) = mat_mul A (matrix_power A n)"

section \<open>Module constants\<close>

definition OMEGA :: complex where
  "OMEGA = exp (2 * of_real pi * \<i> / 3)"

text \<open>
  \<open>ZETA = OMEGA ** (1 / 3)\<close>: Python takes the principal cube root, and the argument
  of \<open>OMEGA\<close> is \<open>2 * pi / 3\<close>.
\<close>

definition ZETA :: complex where
  "ZETA = exp (2 * of_real pi * \<i> / 9)"

section \<open>The generic power entry point\<close>

text \<open>
  \<open>Operation.pow\<close> belongs to the operator base class, outside this module.  A \<open>pow\<close>
  method of the module returns whatever \<open>super().pow(e)\<close> returns, so its result is
  modelled by that call with the exponent \<open>e\<close> it passes.
\<close>

datatype super_call = Operation_pow pynum

section \<open>TShift\<close>

definition TShift_compute_matrix :: matrix where
  "TShift_compute_matrix = [[0, 0, 1], [1, 0, 0], [0, 1, 0]]"

definition TShift_compute_eigvals :: "complex list" where
  "TShift_compute_eigvals = [OMEGA, OMEGA ^ 2, 1]"

definition TShift_pow :: "pynum \<Rightarrow> super_call" where
  "TShift_pow z = Operation_pow (py_mod z 3)"

section \<open>The operator base class\<close>

text \<open>
  The operators share the base class \<open>Operation\<close>, which lives outside this module.  Of
  it the model keeps this much: the base constructor stores the wires (it is taken to
  accept them), and \<open>matrix()\<close> calls the class's \<open>compute_matrix\<close> with the stored
  hyperparameters.
\<close>

record 'w operator =
  wires :: "'w list"

text \<open>
  An operator with a subspace: \<open>subspace_attr\<close> is the attribute \<open>_subspace\<close>,
  \<open>hyperparameters\<close> the entry \<open>"subspace"\<close> of \<open>_hyperparameters\<close>.
\<close>

record 'w subspace_op = "'w operator" +
  subspace_attr :: pyval
  hyperparameters :: pyval

section \<open>Python and numpy primitives\<close>

definition bind :: "pyerror + 'a \<Rightarrow> ('a \<Rightarrow> pyerror + 'b) \<Rightarrow> pyerror + 'b" where
  "bind r f = (case r of Inl e \<Rightarrow> Inl e | Inr x \<Rightarrow> f x)"

text \<open>\<open>hasattr(v, "__iter__")\<close>\<close>

fun has_iter :: "pyval \<Rightarrow> bool" where
  "has_iter (PySeq xs) = True"
| "has_iter PyNone = False"
| "has_iter (PyInt k) = False"

text \<open>\<open>len(v)\<close>: a \<open>TypeError\<close> for \<open>None\<close> and for an integer.\<close>

fun py_len :: "pyval \<Rightarrow> pyerror + nat" where
  "py_len (PySeq xs) = Inr (length xs)"
| "py_len PyNone = Inl TypeError"
| "py_len (PyInt k) = Inl TypeError"

text \<open>
  \<open>v[i]\<close> for the literal indices \<open>0\<close> and \<open>1\<close>: a \<open>TypeError\<close> when \<open>v\<close> is not
  subscriptable, an \<open>IndexError\<close> when the sequence is too short.
\<close>

fun py_getitem :: "pyval \<Rightarrow> nat \<Rightarrow> pyerror + int" where
  "py_getitem (PySeq xs) i = (if i < length xs then Inr (xs ! i) else Inl IndexError)"
| "py_getitem PyNone i = Inl TypeError"
| "py_getitem (PyInt k) i = Inl TypeError"

text \<open>\<open>tuple(sorted(v))\<close> and \<open>tuple(v)\<close>: a \<open>TypeError\<close> when \<open>v\<close> is not iterable.\<close>

fun py_sorted :: "pyval \<Rightarrow> pyerror + int list" where
  "py_sorted (PySeq xs) = Inr (sort xs)"
| "py_sorted PyNone = Inl TypeError"
| "py_sorted (PyInt k) = Inl TypeError"

fun py_tuple :: "pyval \<Rightarrow> pyerror + int list" where
  "py_tuple (PySeq xs) = Inr xs"
| "py_tuple PyNone = Inl TypeError"
| "py_tuple (PyInt k) = Inl TypeError"

text \<open>
  A numpy index into an axis of length \<open>d\<close>: a negative index counts from the end, and an
  index outside \<open>-d .. d-1\<close> raises \<open>IndexError\<close>.
\<close>

definition np_index :: "nat \<Rightarrow> int \<Rightarrow> pyerror + nat" where
  "np_index d i =
     (if 0 \<le> i \<and> i < int d then Inr (nat i)
      else if - int d \<le> i \<and> i < 0 then Inr (nat (i + int d))
      else Inl IndexError)"

text \<open>\<open>mat[i, j] = v\<close>\<close>

definition mat_setitem :: "matrix \<Rightarrow> int \<Rightarrow> int \<Rightarrow> complex \<Rightarrow> pyerror + matrix" where
  "mat_setitem m i j v =
     bind (np_index (length m) i) (\<lambda>r.
     bind (np_index (num_columns m) j) (\<lambda>c.
     Inr (m[r := (m ! r)[c := v]])))"

text \<open>\<open>mat[k:k+3, k:k+3] = b\<close> for a block \<open>b\<close> that fits.\<close>

definition set_block :: "matrix \<Rightarrow> nat \<Rightarrow> matrix \<Rightarrow> matrix" where
  "set_block m k b =
     map (\<lambda>i. map (\<lambda>j. if k \<le> i \<and> i < k + length b \<and> k \<le> j \<and> j < k + num_columns b
                          then b ! (i - k) ! (j - k) else m ! i ! j)
                 [0..<num_columns m])
         [0..<length m]"

section \<open>TClock, TAdd, TSWAP\<close>

definition TClock_compute_matrix :: matrix where
  "TClock_compute_matrix = np_diag [1, OMEGA, OMEGA ^ 2]"

definition TClock_compute_eigvals :: "complex list" where
  "TClock_compute_eigvals = [1, OMEGA, OMEGA ^ 2]"

definition TClock_pow :: "pynum \<Rightarrow> super_call" where
  "TClock_pow z = Operation_pow (py_mod z 3)"

definition TAdd_compute_matrix :: matrix where
  "TAdd_compute_matrix =
     [[1, 0, 0, 0, 0, 0, 0, 0, 0],
      [0, 1, 0, 0, 0, 0, 0, 0, 0],
      [0, 0, 1, 0, 0, 0, 0, 0, 0],
      [0, 0, 0, 0, 0, 1, 0, 0, 0],
      [0, 0, 0, 1, 0, 0, 0, 0, 0],
      [0, 0, 0, 0, 1, 0, 0, 0, 0],
      [0, 0, 0, 0, 0, 0, 0, 1, 0],
      [0, 0, 0, 0, 0, 0, 0, 0, 1],
      [0, 0, 0, 0, 0, 0, 1, 0, 0]]"

definition TAdd_pow :: "pynum \<Rightarrow> super_call" where
  "TAdd_pow z = Operation_pow (py_mod z 3)"

definition TSWAP_compute_matrix :: matrix where
  "TSWAP_compute_matrix =
     [[1, 0, 0, 0, 0, 0, 0, 0, 0],
      [0, 0, 0, 1, 0, 0, 0, 0, 0],
      [0, 0, 0, 0, 0, 0, 1, 0, 0],
      [0, 1, 0, 0, 0, 0, 0, 0, 0],
      [0, 0, 0, 0, 1, 0, 0, 0, 0],
      [0, 0, 0, 0, 0, 0, 0, 1, 0],
      [0, 0, 1, 0, 0, 0, 0, 0, 0],
      [0, 0, 0, 0, 0, 1, 0, 0, 0],
      [0, 0, 0, 0, 0, 0, 0, 0, 1]]"

definition TSWAP_pow :: "pynum \<Rightarrow> super_call" where
  "TSWAP_pow z = Operation_pow (py_mod z 2)"

section \<open>The subspace gates TX, TY, TZ, TH\<close>

text \<open>
  \<open>compute_matrix\<close> of \<open>TX\<close>, \<open>TY\<close>, \<open>TZ\<close> and \<open>TH\<close> opens with the same three checks, in
  this order: \<open>len(subspace) != 2\<close>, then \<open>not all([s in {0, 1, 2} for s in subspace])\<close>,
  then \<open>subspace[0] == subspace[1]\<close>, each raising \<open>ValueError\<close>.  \<open>len\<close> itself raises
  \<open>TypeError\<close> on a value that has no length.  The checks return the subspace's elements.
\<close>

definition subspace_checks :: "pyval \<Rightarrow> pyerror + int list" where
  "subspace_checks subsp =
     bind (py_len subsp) (\<lambda>n.
       if n \<noteq> 2 then Inl ValueError
       else bind (py_tuple subsp) (\<lambda>xs.
         if \<not> list_all (\<lambda>s. s \<in> {0, 1, 2}) xs then Inl ValueError
         else if xs ! 0 = xs ! 1 then Inl ValueError
         else Inr xs))"

text \<open>\<open>list({0, 1, 2}.difference(set(subspace))).pop()\<close>\<close>

definition unused_ind :: "int list \<Rightarrow> int" where
  "unused_ind sub = last (filter (\<lambda>k. k \<notin> set sub) [0, 1, 2])"

definition TX_compute_matrix :: "pyval \<Rightarrow> pyerror + matrix" where
  "TX_compute_matrix subsp =
     bind (subspace_checks subsp) (\<lambda>xs.
       let sub = sort xs; mat = np_zeros 3 3; u = unused_ind sub in
       bind (mat_setitem mat (sub ! 0) (sub ! 1) 1) (\<lambda>mat.
       bind (mat_setitem mat (sub ! 1) (sub ! 0) 1) (\<lambda>mat.
       mat_setitem mat u u 1)))"

definition TY_compute_matrix :: "pyval \<Rightarrow> pyerror + matrix" where
  "TY_compute_matrix subsp =
     bind (subspace_checks subsp) (\<lambda>xs.
       let sub = sort xs; mat = np_zeros 3 3; u = unused_ind sub in
       bind (mat_setitem mat (sub ! 0) (sub ! 1) (- \<i>)) (\<lambda>mat.
       bind (mat_setitem mat (sub ! 1) (sub ! 0) \<i>) (\<lambda>mat.
       mat_setitem mat u u 1)))"

definition TZ_compute_matrix :: "pyval \<Rightarrow> pyerror + matrix" where
  "TZ_compute_matrix subsp =
     bind (subspace_checks subsp) (\<lambda>sub.
       let mat = np_eye 3 in
       mat_setitem mat (sub ! 1) (sub ! 1) (- 1))"

definition TH_compute_matrix :: "pyval \<Rightarrow> pyerror + matrix" where
  "TH_compute_matrix subsp =
     bind (subspace_checks subsp) (\<lambda>xs.
       let sub = sort xs; mat = np_eye 3; u = unused_ind sub in
       bind (mat_setitem mat u u (of_real (sqrt 2))) (\<lambda>mat.
       bind (mat_setitem mat (sub ! 0) (sub ! 1) 1) (\<lambda>mat.
       bind (mat_setitem mat (sub ! 1) (sub ! 0) 1) (\<lambda>mat.
       bind (mat_setitem mat (sub ! 1) (sub ! 1) (- 1)) (\<lambda>mat.
       Inr (map (map (\<lambda>x. x / of_real (sqrt 2))) mat))))))"

text \<open>The \<open>pow\<close> methods of \<open>TX\<close>, \<open>TY\<close>, \<open>TZ\<close>, \<open>TH\<close> (and of \<open>TCNOT\<close> below).\<close>

definition TX_pow :: "pynum \<Rightarrow> super_call" where
  "TX_pow z = (if \<not> isinstance_int z then Operation_pow z else Operation_pow (py_mod z 2))"

definition TY_pow :: "pynum \<Rightarrow> super_call" where
  "TY_pow z = (if \<not> isinstance_int z then Operation_pow z else Operation_pow (py_mod z 2))"

definition TZ_pow :: "pynum \<Rightarrow> super_call" where
  "TZ_pow z = (if \<not> isinstance_int z then Operation_pow z else Operation_pow (py_mod z 2))"

definition TH_pow :: "pynum \<Rightarrow> super_call" where
  "TH_pow z = (if \<not> isinstance_int z then Operation_pow z else Operation_pow (py_mod z 2))"

text \<open>
  The \<open>subspace\<close> property and the constructor of \<open>TZ\<close>.  The constructor tests
  \<open>hasattr(subspace, "__iter__")\<close>, stores \<open>_subspace\<close>, and stores the value of the
  \<open>subspace\<close> property in the hyperparameters.
\<close>

definition TZ_subspace :: "'w subspace_op \<Rightarrow> pyerror + int list" where
  "TZ_subspace self = py_tuple (subspace_attr self)"

definition TZ_init :: "'w list \<Rightarrow> pyval \<Rightarrow> pyerror + 'w subspace_op" where
  "TZ_init ws subsp =
     (if \<not> has_iter subsp then Inl ValueError
      else let self = \<lparr>wires = ws, subspace_attr = subsp, hyperparameters = PyNone\<rparr> in
        bind (TZ_subspace self) (\<lambda>t. Inr (self\<lparr>hyperparameters := PySeq t\<rparr>)))"

definition TZ_matrix :: "'w subspace_op \<Rightarrow> pyerror + matrix" where
  "TZ_matrix self = TZ_compute_matrix (hyperparameters self)"

section \<open>TCNOT\<close>

definition TCNOT_compute_matrix :: "pyval \<Rightarrow> pyval \<Rightarrow> pyerror + matrix" where
  "TCNOT_compute_matrix subsp control_value =
     bind (TX_compute_matrix subsp) (\<lambda>op_mat.
       let mat = np_eye 9 in
       if control_value = PyInt 0 then Inr (set_block mat 0 op_mat)
       else if control_value = PyInt 1 then Inr (set_block mat 3 op_mat)
       else Inr (set_block mat 6 op_mat))"

definition TCNOT_pow :: "pynum \<Rightarrow> super_call" where
  "TCNOT_pow z = (if \<not> isinstance_int z then Operation_pow z else Operation_pow (py_mod z 2))"

section \<open>The phase gates TS and TT\<close>

definition TS_subspace :: "'w subspace_op \<Rightarrow> pyerror + int list" where
  "TS_subspace self = py_sorted (subspace_attr self)"

definition TS_init :: "'w list \<Rightarrow> pyval \<Rightarrow> pyerror + 'w subspace_op" where
  "TS_init ws subsp =
     (if \<not> has_iter subsp then Inl ValueError
      else let self = \<lparr>wires = ws, subspace_attr = subsp, hyperparameters = PyNone\<rparr> in
        bind (TS_subspace self) (\<lambda>t. Inr (self\<lparr>hyperparameters := PySeq t\<rparr>)))"

definition TS_compute_matrix :: "pyval \<Rightarrow> pyerror + matrix" where
  "TS_compute_matrix subsp =
     (if subsp = PyNone then Inr (map (map (\<lambda>x. ZETA ^ 8 * x)) (np_diag [1, 1, OMEGA]))
      else let mat = np_eye 3 in
        bind (py_getitem subsp 0) (\<lambda>s0.
        bind (mat_setitem mat s0 s0 1) (\<lambda>mat.
        bind (py_getitem subsp 1) (\<lambda>s1.
        mat_setitem mat s1 s1 \<i>))))"

definition TS_matrix :: "'w subspace_op \<Rightarrow> pyerror + matrix" where
  "TS_matrix self = TS_compute_matrix (hyperparameters self)"

definition TT_subspace :: "'w subspace_op \<Rightarrow> pyerror + int list" where
  "TT_subspace self = py_sorted (subspace_attr self)"

definition TT_init :: "'w list \<Rightarrow> pyval \<Rightarrow> pyerror + 'w subspace_op" where
  "TT_init ws subsp =
     (if \<not> has_iter subsp then Inl ValueError
      else let self = \<lparr>wires = ws, subspace_attr = subsp, hyperparameters = PyNone\<rparr> in
        bind (TT_subspace self) (\<lambda>t. Inr (self\<lparr>hyperparameters := PySeq t\<rparr>)))"

definition TT_compute_matrix :: "pyval \<Rightarrow> pyerror + matrix" where
  "TT_compute_matrix subsp =
     (if subsp = PyNone then Inr (np_diag [1, ZETA, ZETA ^ 8])
      else let mat = np_eye 3 in
        bind (py_getitem subsp 0) (\<lambda>s0.
        bind (mat_setitem mat s0 s0 1) (\<lambda>mat.
        bind (py_getitem subsp 1) (\<lambda>s1.
        mat_setitem mat s1 s1 (exp (\<i> * of_real pi / 4))))))"

definition TT_matrix :: "'w subspace_op \<Rightarrow> pyerror + matrix" where
  "TT_matrix self = TT_compute_matrix (hyperparameters self)"

section \<open>Tensors and wires\<close>

text \<open>
  An n-dimensional numpy array: its shape and its entry at each index tuple.  Only the
  entries at index tuples inside the shape are meaningful.  \<open>ravel\<close> lists them in
  row-major order, as numpy's flattening does.
\<close>

record 'a ndarray =
  shape :: "nat list"
  entries :: "nat list \<Rightarrow> 'a"

fun all_indices :: "nat list \<Rightarrow> nat list list" where
  "all_indices [] = [[]]"
| "all_indices (d # ds) = concat (map (\<lambda>i. map ((#) i) (all_indices ds)) [0..<d])"

definition ravel :: "'a ndarray \<Rightarrow> 'a list" where
  "ravel t = map (entries t) (all_indices (shape t))"

text \<open>\<open>np.zeros(shape)\<close> and \<open>zeros_like(t)\<close>\<close>

definition nd_zeros :: "nat list \<Rightarrow> ('a::zero) ndarray" where
  "nd_zeros sh = \<lparr>shape = sh, entries = (\<lambda>idx. 0)\<rparr>"

definition zeros_like :: "('a::zero) ndarray \<Rightarrow> 'a ndarray" where
  "zeros_like t = nd_zeros (shape t)"

text \<open>
  The index tuple of \<open>t[tuple(indices)]\<close>: each index is checked against its axis, and
  more indices than axes is an \<open>IndexError\<close>.
\<close>

fun np_indices :: "nat list \<Rightarrow> int list \<Rightarrow> pyerror + nat list" where
  "np_indices sh [] = Inr []"
| "np_indices [] (i # rest) = Inl IndexError"
| "np_indices (d # ds) (i # rest) =
     bind (np_index d i) (\<lambda>k. bind (np_indices ds rest) (\<lambda>ks. Inr (k # ks)))"

text \<open>
  \<open>t[tuple(indices)] = v\<close>: every entry whose index tuple starts with the given indices
  is set (one entry when there are as many indices as axes).
\<close>

definition nd_setitem :: "'a ndarray \<Rightarrow> int list \<Rightarrow> 'a \<Rightarrow> pyerror + 'a ndarray" where
  "nd_setitem t indices v =
     bind (np_indices (shape t) indices) (\<lambda>idx.
       Inr (t\<lparr>entries := (\<lambda>j. if take (length idx) j = idx then v else entries t j)\<rparr>))"

text \<open>The position of an index tuple in the row-major flattening.\<close>

fun flat_index :: "nat list \<Rightarrow> nat list \<Rightarrow> nat \<Rightarrow> nat" where
  "flat_index (d # ds) (i # rest) acc = flat_index ds rest (acc * d + i)"
| "flat_index ds rest acc = acc"

text \<open>\<open>reshape\<close> of flat data to a shape with as many entries; otherwise numpy raises.\<close>

definition np_reshape :: "'a list \<Rightarrow> nat list \<Rightarrow> pyerror + 'a ndarray" where
  "np_reshape flat sh =
     (if prod_list sh = length flat
      then Inr \<lparr>shape = sh, entries = (\<lambda>idx. flat ! flat_index sh idx 0)\<rparr>
      else Inl ValueError)"

text \<open>\<open>stack([a, b], axis=-1)\<close>: a new last axis that holds the two arrays.\<close>

definition np_stack_last :: "'a ndarray \<Rightarrow> 'a ndarray \<Rightarrow> 'a ndarray" where
  "np_stack_last a b =
     \<lparr>shape = shape a @ [2],
      entries = (\<lambda>idx. if last idx = 0 then entries a (butlast idx) else entries b (butlast idx))\<rparr>"

text \<open>
  \<open>transpose(t, axes)\<close>: axis \<open>i\<close> of the result is axis \<open>axes[i]\<close> of \<open>t\<close>; numpy raises
  unless \<open>axes\<close> is a permutation of the axes of \<open>t\<close>.
\<close>

definition position :: "'a list \<Rightarrow> 'a \<Rightarrow> nat" where
  "position axes k = length (takeWhile (\<lambda>a. a \<noteq> k) axes)"

definition np_transpose :: "'a ndarray \<Rightarrow> nat list \<Rightarrow> pyerror + 'a ndarray" where
  "np_transpose t axes =
     (if sort axes = [0..<length (shape t)]
      then Inr \<lparr>shape = map (\<lambda>a. shape t ! a) axes,
                entries = (\<lambda>idx. entries t (map (\<lambda>k. idx ! position axes k) [0..<length axes]))\<rparr>
      else Inl ValueError)"

text \<open>
  Modelled from the spec: the wire-label class \<open>Wires\<close> of the surrounding framework, of
  which this module uses the constructor, equality, \<open>contains_wires\<close>, \<open>index\<close> and
  concatenation.  A wire sequence is an ordered, duplicate-free list of labels, so the
  constructor refuses a list with a repeated label.
\<close>

definition Wires :: "'w list \<Rightarrow> pyerror + 'w list" where
  "Wires ws = (if distinct ws then Inr ws else Inl WireError)"

definition contains_wires :: "'w list \<Rightarrow> 'w list \<Rightarrow> bool" where
  "contains_wires order ws = list_all (\<lambda>w. w \<in> set order) ws"

text \<open>\<open>xs.index(w)\<close>: the first position of \<open>w\<close>, a \<open>ValueError\<close> when it is absent.\<close>

fun list_index :: "'w list \<Rightarrow> 'w \<Rightarrow> pyerror + nat" where
  "list_index [] w = Inl ValueError"
| "list_index (x # xs) w = (if x = w then Inr 0 else bind (list_index xs w) (\<lambda>k. Inr (Suc k)))"

text \<open>A list comprehension whose element expression may raise.\<close>

fun map_result :: "('a \<Rightarrow> pyerror + 'b) \<Rightarrow> 'a list \<Rightarrow> pyerror + 'b list" where
  "map_result f [] = Inr []"
| "map_result f (x # xs) = bind (f x) (\<lambda>y. bind (map_result f xs) (\<lambda>ys. Inr (y # ys)))"

section \<open>QutritBasisState\<close>

text \<open>\<open>basis_parameters\<close> is \<open>self.parameters[0]\<close>, the trit sequence \<open>n\<close>.\<close>

record 'w QutritBasisState = "'w operator" +
  basis_parameters :: "int list"

text \<open>
  The loop \<open>for base_wire_label, value in zip(self.wires, prep_vals):
  indices[wire_order.index(base_wire_label)] = value\<close>.
\<close>

fun assign_indices :: "'w list \<Rightarrow> ('w \<times> int) list \<Rightarrow> int list \<Rightarrow> pyerror + int list" where
  "assign_indices wire_order [] indices = Inr indices"
| "assign_indices wire_order ((base_wire_label, v) # rest) indices =
     bind (list_index wire_order base_wire_label) (\<lambda>k.
       assign_indices wire_order rest (indices[k := v]))"

definition QutritBasisState_state_vector ::
    "'w QutritBasisState \<Rightarrow> 'w list option \<Rightarrow> pyerror + real ndarray" where
  "QutritBasisState_state_vector self wire_order =
     (let prep_vals = basis_parameters self in
      if list_ex (\<lambda>i. i \<notin> {0, 1, 2}) prep_vals then Inl ValueError
      else if length (wires self) \<noteq> length prep_vals then Inl ValueError
      else
        bind (case wire_order of
                None \<Rightarrow> Inr (length (wires self), prep_vals)
              | Some order \<Rightarrow>
                  bind (Wires order) (\<lambda>wo.
                    if \<not> contains_wires wo (wires self) then Inl WireError
                    else bind (assign_indices order (zip (wires self) prep_vals)
                                 (replicate (length order) 0))
                           (\<lambda>indices. Inr (length order, indices))))
          (\<lambda>(num_wires, indices).
             nd_setitem (nd_zeros (replicate num_wires 3)) indices 1))"

section \<open>QutritStateVector\<close>

text \<open>
  \<open>state_parameters\<close> is \<open>self.parameters[0]\<close>: a vector of amplitudes, or a batch of such
  vectors given as the list of its rows.  \<open>batch_size\<close> is supplied by the base class: the
  number of rows of a batch, \<open>None\<close> for a single vector.
\<close>

datatype state_param = State1D "complex list" | State2D "complex list list"

record 'w QutritStateVector = "'w operator" +
  state_parameters :: state_param

definition batch_size :: "'w QutritStateVector \<Rightarrow> nat option" where
  "batch_size self =
     (case state_parameters self of State1D v \<Rightarrow> None | State2D rows \<Rightarrow> Some (length rows))"

text \<open>The truth value of \<open>self.batch_size\<close> in \<open>if self.batch_size\<close>.\<close>

definition truthy :: "nat option \<Rightarrow> bool" where
  "truthy b = (case b of None \<Rightarrow> False | Some k \<Rightarrow> k \<noteq> 0)"

definition flat_data :: "state_param \<Rightarrow> complex list" where
  "flat_data p = (case p of State1D v \<Rightarrow> v | State2D rows \<Rightarrow> concat rows)"

text \<open>
  \<open>math.reshape(self.parameters[0], op_vector_shape)\<close>, where the shape is
  \<open>(-1,) + (3,) * k\<close> for a batch and \<open>(3,) * k\<close> otherwise; \<open>-1\<close> stands for the size that
  makes the number of entries fit.
\<close>

definition reshape_state :: "state_param \<Rightarrow> bool \<Rightarrow> nat \<Rightarrow> pyerror + complex ndarray" where
  "reshape_state p batched k =
     (let flat = flat_data p in
      if batched then
        (if length flat mod 3 ^ k = 0
         then np_reshape flat ((length flat div 3 ^ k) # replicate k 3)
         else Inl ValueError)
      else np_reshape flat (replicate k 3))"

text \<open>
  \<open>extra_wires\<close> is built from a Python set, whose iteration order is not fixed; the model
  lists the extra wires in the order of \<open>wire_order\<close>.  Every axis added for an extra wire
  holds the same data, so the returned tensor does not depend on that order.
\<close>

definition QutritStateVector_state_vector ::
    "'w QutritStateVector \<Rightarrow> 'w list option \<Rightarrow> pyerror + complex ndarray" where
  "QutritStateVector_state_vector self wire_order =
     (let num_op_wires = length (wires self) in
      bind (reshape_state (state_parameters self) (truthy (batch_size self)) num_op_wires)
        (\<lambda>op_vector.
          case wire_order of
            None \<Rightarrow> Inr op_vector
          | Some order \<Rightarrow>
              bind (Wires order) (\<lambda>wo.
                if wo = wires self then Inr op_vector
                else if \<not> contains_wires wo (wires self) then Inl WireError
                else
                  let extra_wires = filter (\<lambda>w. w \<notin> set (wires self)) wo;
                      op_vector = fold (\<lambda>w v. np_stack_last v (zeros_like v)) extra_wires op_vector;
                      current_wires = wires self @ extra_wires
                  in bind (map_result (list_index current_wires) wo) (\<lambda>transpose_axes.
                       np_transpose op_vector
                         (if truthy (batch_size self) then 0 # map Suc transpose_axes
                          else transpose_axes)))))"

section \<open>Facts about the constants\<close>

lemma OMEGA_cis: "OMEGA = cis (2 * pi / 3)"
  by (simp add: OMEGA_def cis_conv_exp mult.commute mult.left_commute)

lemma OMEGA_cubed: "OMEGA ^ 3 = 1"
  by (simp add: OMEGA_cis DeMoivre)

lemma OMEGA_Re: "Re OMEGA = - 1 / 2"
  by (simp add: OMEGA_cis cos_120)

lemma OMEGA_Im: "Im OMEGA = sqrt 3 / 2"
  by (simp add: OMEGA_cis sin_120)

section \<open>Evaluating the gates\<close>

lemmas prim_defs = bind_def subspace_checks_def mat_setitem_def np_index_def np_zeros_def
  np_eye_def num_columns_def unused_ind_def upt_rec numeral_2_eq_2 numeral_3_eq_3

lemmas mul_defs = mat_mul_def dot_def column_def

lemma OMEGA_products: "OMEGA * (OMEGA * OMEGA) = 1" "OMEGA * (OMEGA * (OMEGA * x)) = x"
proof -
  show one: "OMEGA * (OMEGA * OMEGA) = 1"
    using OMEGA_cubed by (simp add: power3_eq_cube mult.assoc)
  show "OMEGA * (OMEGA * (OMEGA * x)) = x"
    using one by (simp flip: mult.assoc)
qed

lemma sqrt2_sq: "complex_of_real (sqrt 2) * complex_of_real (sqrt 2) = 2"
  by (simp flip: of_real_mult)

lemma valid_cases:
  assumes "a \<in> {0, 1, 2::int}" "b \<in> {0, 1, 2}" "a \<noteq> b"
  shows "(a, b) \<in> {(0, 1), (0, 2), (1, 0), (1, 2), (2, 0), (2, 1)}"
  using assms by auto

lemma subspace_checks_Inr:
  assumes "subspace_checks s = Inr xs"
  shows "\<exists>a b. s = PySeq [a, b] \<and> xs = [a, b] \<and> a \<in> {0, 1, 2} \<and> b \<in> {0, 1, 2} \<and> a \<noteq> b"
proof (cases s)
  case (PySeq ys)
  with assms have len: "length ys = 2" and xs: "xs = ys"
    by (auto simp: subspace_checks_def bind_def split: if_splits)
  from len obtain a b where ys: "ys = [a, b]"
    by (cases ys; cases "tl ys") auto
  with assms PySeq xs show ?thesis
    by (auto simp: subspace_checks_def bind_def split: if_splits)
qed (use assms in \<open>auto simp: subspace_checks_def bind_def\<close>)

lemma subspace_checks_valid:
  "a \<in> {0, 1, 2} \<Longrightarrow> b \<in> {0, 1, 2} \<Longrightarrow> a \<noteq> b \<Longrightarrow> subspace_checks (PySeq [a, b]) = Inr [a, b]"
  by (auto simp: subspace_checks_def bind_def)

text \<open>
  Every value that is not a pair of distinct trits is refused by the shared checks:
  with \<open>TypeError\<close> (from \<open>len\<close>) when it is not a sequence, with \<open>ValueError\<close> otherwise.
\<close>

lemma subspace_checks_malformed:
  "subspace_checks PyNone = Inl TypeError"
  "subspace_checks (PyInt k) = Inl TypeError"
  "length xs \<noteq> 2 \<Longrightarrow> subspace_checks (PySeq xs) = Inl ValueError"
  "\<not> list_all (\<lambda>s. s \<in> {0, 1, 2}) xs \<Longrightarrow> subspace_checks (PySeq xs) = Inl ValueError"
  "subspace_checks (PySeq [a, a]) = Inl ValueError"
  by (auto simp: subspace_checks_def bind_def)

text \<open>
  \<open>TX\<close>, \<open>TY\<close>, \<open>TZ\<close>, \<open>TH\<close> and \<open>TCNOT\<close> return no matrix for a subspace the checks
  refuse: the error of the checks is the result.
\<close>

lemma checked_gates_reject:
  assumes "subspace_checks s = Inl e"
  shows "TX_compute_matrix s = Inl e" "TY_compute_matrix s = Inl e" "TZ_compute_matrix s = Inl e"
    "TH_compute_matrix s = Inl e" "TCNOT_compute_matrix s cv = Inl e"
  using assms
  by (simp_all add: TX_compute_matrix_def TY_compute_matrix_def TZ_compute_matrix_def
      TH_compute_matrix_def TCNOT_compute_matrix_def bind_def)

lemma TX_values:
  "TX_compute_matrix (PySeq [0, 1]) = Inr [[0, 1, 0], [1, 0, 0], [0, 0, 1]]"
  "TX_compute_matrix (PySeq [1, 0]) = Inr [[0, 1, 0], [1, 0, 0], [0, 0, 1]]"
  "TX_compute_matrix (PySeq [0, 2]) = Inr [[0, 0, 1], [0, 1, 0], [1, 0, 0]]"
  "TX_compute_matrix (PySeq [2, 0]) = Inr [[0, 0, 1], [0, 1, 0], [1, 0, 0]]"
  "TX_compute_matrix (PySeq [1, 2]) = Inr [[1, 0, 0], [0, 0, 1], [0, 1, 0]]"
  "TX_compute_matrix (PySeq [2, 1]) = Inr [[1, 0, 0], [0, 0, 1], [0, 1, 0]]"
  by (simp_all add: TX_compute_matrix_def prim_defs)

lemma TX_range:
  assumes "TX_compute_matrix s = Inr X"
  shows "X \<in> {[[0, 1, 0], [1, 0, 0], [0, 0, 1]], [[0, 0, 1], [0, 1, 0], [1, 0, 0]],
               [[1, 0, 0], [0, 0, 1], [0, 1, 0]]}"
proof -
  from assms obtain xs where "subspace_checks s = Inr xs"
    by (auto simp: TX_compute_matrix_def bind_def split: sum.splits)
  then obtain a b where s: "s = PySeq [a, b]" and v: "a \<in> {0, 1, 2}" "b \<in> {0, 1, 2}" "a \<noteq> b"
    using subspace_checks_Inr by blast
  from valid_cases[OF v] assms show ?thesis
    unfolding s by (elim insertE emptyE) (simp_all add: TX_values)
qed

lemma TCNOT_value:
  "TCNOT_compute_matrix s cv =
     bind (TX_compute_matrix s) (\<lambda>x. Inr (set_block (np_eye 9)
        (if cv = PyInt 0 then 0 else if cv = PyInt 1 then 3 else 6) x))"
  by (simp add: TCNOT_compute_matrix_def bind_def split: sum.splits)

section \<open>Orders of the gates\<close>

lemma TShift_cubed: "matrix_power TShift_compute_matrix 3 = np_eye 3"
  by (simp add: TShift_compute_matrix_def prim_defs mul_defs)

lemma TClock_cubed: "matrix_power TClock_compute_matrix 3 = np_eye 3"
  by (simp add: TClock_compute_matrix_def np_diag_def prim_defs mul_defs OMEGA_products mult.assoc)

lemma TSWAP_squared: "matrix_power TSWAP_compute_matrix 2 = np_eye 9"
  by (simp add: TSWAP_compute_matrix_def prim_defs mul_defs)

lemma TX_squared:
  "a \<in> {0, 1, 2} \<Longrightarrow> b \<in> {0, 1, 2} \<Longrightarrow> a \<noteq> b \<Longrightarrow>
   bind (TX_compute_matrix (PySeq [a, b])) (\<lambda>m. Inr (matrix_power m 2)) = Inr (np_eye 3)"
  apply (drule (2) valid_cases)
  apply (elim insertE emptyE)
       apply (simp_all add: TX_compute_matrix_def prim_defs mul_defs)
  done

lemma TY_squared:
  "a \<in> {0, 1, 2} \<Longrightarrow> b \<in> {0, 1, 2} \<Longrightarrow> a \<noteq> b \<Longrightarrow>
   bind (TY_compute_matrix (PySeq [a, b])) (\<lambda>m. Inr (matrix_power m 2)) = Inr (np_eye 3)"
  apply (drule (2) valid_cases)
  apply (elim insertE emptyE)
       apply (simp_all add: TY_compute_matrix_def prim_defs mul_defs)
  done

lemma TZ_squared:
  "a \<in> {0, 1, 2} \<Longrightarrow> b \<in> {0, 1, 2} \<Longrightarrow> a \<noteq> b \<Longrightarrow>
   bind (TZ_compute_matrix (PySeq [a, b])) (\<lambda>m. Inr (matrix_power m 2)) = Inr (np_eye 3)"
  apply (drule (2) valid_cases)
  apply (elim insertE emptyE)
       apply (simp_all add: TZ_compute_matrix_def prim_defs mul_defs)
  done

lemma TH_squared:
  "a \<in> {0, 1, 2} \<Longrightarrow> b \<in> {0, 1, 2} \<Longrightarrow> a \<noteq> b \<Longrightarrow>
   bind (TH_compute_matrix (PySeq [a, b])) (\<lambda>m. Inr (matrix_power m 2)) = Inr (np_eye 3)"
  apply (drule (2) valid_cases)
  apply (elim insertE emptyE)
       apply (simp_all add: TH_compute_matrix_def prim_defs mul_defs sqrt2_sq)
  done

lemma block_squares:
  assumes "X \<in> {[[0, 1, 0], [1, 0, 0], [0, 0, 1]], [[0, 0, 1], [0, 1, 0], [1, 0, 0]],
                 [[1, 0, 0], [0, 0, 1], [0, 1, 0]]}" "k \<in> {0, 3, 6}"
  shows "matrix_power (set_block (np_eye 9) k X) 2 = np_eye 9"
  using assms
  apply (elim insertE emptyE)
          apply (simp_all add: set_block_def np_eye_def num_columns_def upt_rec numeral_2_eq_2 mul_defs)
  done

lemma TCNOT_squared:
  "a \<in> {0, 1, 2} \<Longrightarrow> b \<in> {0, 1, 2} \<Longrightarrow> a \<noteq> b \<Longrightarrow>
   bind (TCNOT_compute_matrix (PySeq [a, b]) cv) (\<lambda>m. Inr (matrix_power m 2)) = Inr (np_eye 9)"
  apply (drule (2) valid_cases)
  apply (elim insertE emptyE)
       apply (simp_all add: TCNOT_value TX_values bind_def block_squares)
  done

lemma float_mod_unchanged:
  fixes r p :: real
  assumes "0 < p"
  shows "(r - p * of_int \<lfloor>r / p\<rfloor> = r) = (0 \<le> r \<and> r < p)"
proof -
  have "(r - p * of_int \<lfloor>r / p\<rfloor> = r) = (\<lfloor>r / p\<rfloor> = 0)"
    using assms by auto
  also have "\<dots> = (0 \<le> r / p \<and> r / p < 1)"
    by (simp add: floor_eq_iff)
  also have "\<dots> = (0 \<le> r \<and> r < p)"
    using assms by (simp add: zero_le_divide_iff)
  finally show ?thesis .
qed

section \<open>The basis-state loop\<close>

lemma list_index_Inr:
  "w \<in> set xs \<Longrightarrow> \<exists>k. list_index xs w = Inr k \<and> k < length xs \<and> xs ! k = w"
  by (induction xs) (auto simp: bind_def)

lemma assign_indices_eq:
  assumes "distinct order" "distinct (map fst ps)" "set (map fst ps) \<subseteq> set order"
    "length ind = length order"
  shows "assign_indices order ps ind =
    Inr (map (\<lambda>p. case map_of ps (order ! p) of None \<Rightarrow> ind ! p | Some v \<Rightarrow> v) [0..<length order])"
  using assms(2-4)
proof (induction ps arbitrary: ind)
  case Nil
  then show ?case using map_nth[of ind] by simp
next
  case (Cons wv rest)
  obtain w v where wv: "wv = (w, v)" by (cases wv)
  from Cons.prems wv have "w \<in> set order" by simp
  then obtain k where k: "list_index order w = Inr k" "k < length order" "order ! k = w"
    using list_index_Inr by metis
  have notin: "map_of rest w = None"
    using Cons.prems(1) wv by (simp add: map_of_eq_None_iff)
  have IH: "assign_indices order rest (ind[k := v]) =
    Inr (map (\<lambda>p. case map_of rest (order ! p) of None \<Rightarrow> ind[k := v] ! p | Some v \<Rightarrow> v) [0..<length order])"
    using Cons.IH[of "ind[k := v]"] Cons.prems wv by simp
  have "map (\<lambda>p. case map_of rest (order ! p) of None \<Rightarrow> ind[k := v] ! p | Some v \<Rightarrow> v) [0..<length order]
      = map (\<lambda>p. case map_of (wv # rest) (order ! p) of None \<Rightarrow> ind ! p | Some v \<Rightarrow> v) [0..<length order]"
  proof (rule map_cong[OF refl])
    fix p assume "p \<in> set [0..<length order]"
    then have p: "p < length order" by simp
    show "(case map_of rest (order ! p) of None \<Rightarrow> ind[k := v] ! p | Some v \<Rightarrow> v)
        = (case map_of (wv # rest) (order ! p) of None \<Rightarrow> ind ! p | Some v \<Rightarrow> v)"
    proof (cases "order ! p = w")
      case True
      have "p = k" using nth_eq_iff_index_eq[OF assms(1) p k(2)] True k(3) by simp
      with True notin k Cons.prems(3) show ?thesis by (simp add: wv)
    next
      case False
      with k have "p \<noteq> k" by auto
      with False show ?thesis by (simp add: wv split: option.split)
    qed
  qed
  with IH k show ?case by (simp add: wv bind_def)
qed

lemma np_indices_trits:
  "list_all (\<lambda>i. i \<in> {0, 1, 2}) js \<Longrightarrow> np_indices (replicate (length js) 3) js = Inr (map nat js)"
  by (induction js) (auto simp: bind_def np_index_def)

section \<open>The controlled gate as a block matrix\<close>

lemma block6_explicit:
  assumes "X \<in> {[[0, 1, 0], [1, 0, 0], [0, 0, 1]], [[0, 0, 1], [0, 1, 0], [1, 0, 0]],
               [[1, 0, 0], [0, 0, 1], [0, 1, 0]]}"
  shows "set_block (np_eye 9) 6 X =
      map (\<lambda>i. map (\<lambda>j. if 6 \<le> i \<and> 6 \<le> j then X ! (i - 6) ! (j - 6) else if i = j then 1 else 0) [0..<9]) [0..<9]"
  using assms
  by (elim insertE emptyE) (simp_all add: set_block_def np_eye_def num_columns_def upt_rec)

section \<open>Padding an amplitude vector\<close>

lemma list_index_position: "w \<in> set xs \<Longrightarrow> list_index xs w = Inr (position xs w)"
  by (induction xs) (auto simp: position_def bind_def)

lemma map_result_list_index:
  "set ys \<subseteq> set xs \<Longrightarrow> map_result (list_index xs) ys = Inr (map (position xs) ys)"
  by (induction ys) (auto simp: bind_def list_index_position)

lemma position_nth: "distinct xs \<Longrightarrow> i < length xs \<Longrightarrow> position xs (xs ! i) = i"
proof -
  assume d: "distinct xs" and i: "i < length xs"
  have "takeWhile (\<lambda>a. a \<noteq> xs ! i) xs = take i xs"
    using d i by (intro takeWhile_eq_take_P_nth) (auto simp: nth_eq_iff_index_eq)
  with i show ?thesis by (simp add: position_def)
qed

lemma map_position_self: "distinct xs \<Longrightarrow> map (position xs) xs = [0..<length xs]"
  by (rule nth_equalityI) (simp_all add: position_nth)

lemma shape_fold_stack:
  "shape (fold (\<lambda>w v. np_stack_last v (zeros_like v)) xs t) = shape t @ replicate (length xs) 2"
  by (induction xs arbitrary: t) (simp_all add: np_stack_last_def replicate_app_Cons_same)

text \<open>
  For a single state vector and every duplicate-free wire order that contains the
  operator's wires and differs from them, the tensor \<open>state_vector\<close> returns has one axis
  per wire of the order; as many of them as the operator has wires have size three, and
  every other axis has size two.
\<close>

lemma QutritStateVector_extra_axes_have_size_two:
  assumes v: "length v = 3 ^ length ws"
    and dws: "distinct ws" and dord: "distinct order"
    and sub: "set ws \<subseteq> set order" and ne: "order \<noteq> ws"
  shows "\<exists>t. QutritStateVector_state_vector \<lparr>wires = ws, state_parameters = State1D v\<rparr> (Some order) = Inr t \<and>
     length (shape t) = length order \<and>
     mset (shape t) = replicate_mset (length ws) 3 + replicate_mset (length order - length ws) 2"
proof -
  define extra where "extra = filter (\<lambda>w. w \<notin> set ws) order"
  define cw where "cw = ws @ extra"
  define t0 :: "complex ndarray" where
    "t0 = \<lparr>shape = replicate (length ws) 3, entries = (\<lambda>idx. v ! flat_index (replicate (length ws) 3) idx 0)\<rparr>"
  define t1 where "t1 = fold (\<lambda>w v. np_stack_last v (zeros_like v)) extra t0"
  define axes where "axes = map (position cw) order"
  have r: "reshape_state (State1D v) False (length ws) = Inr t0"
    using v by (simp add: reshape_state_def flat_data_def np_reshape_def t0_def)
  have dcw: "distinct cw" using dws dord by (auto simp: cw_def extra_def)
  have scw: "set cw = set order" using sub by (auto simp: cw_def extra_def)
  have mcw: "mset cw = mset order"
    using dcw dord scw by (simp add: set_eq_iff_mset_eq_distinct)
  then have lcw: "length cw = length order" by (metis size_mset)
  have le: "length extra = length order - length ws" using lcw by (simp add: cw_def)
  have sh1: "shape t1 = replicate (length ws) 3 @ replicate (length extra) 2"
    by (simp add: t1_def shape_fold_stack t0_def)
  have ax: "map_result (list_index cw) order = Inr axes"
    using scw by (simp add: map_result_list_index axes_def)
  have "mset axes = image_mset (position cw) (mset cw)" by (simp add: axes_def mcw)
  also have "\<dots> = mset (map (position cw) cw)" by simp
  also have "\<dots> = mset [0..<length cw]" by (simp only: map_position_self[OF dcw])
  finally have maxes: "mset axes = mset [0..<length (shape t1)]" by (simp add: sh1 cw_def)
  then have srt: "sort axes = [0..<length (shape t1)]"
    by (intro properties_for_sort) simp_all
  have res: "QutritStateVector_state_vector \<lparr>wires = ws, state_parameters = State1D v\<rparr> (Some order)
     = np_transpose t1 axes"
    using r dord ne sub ax
    by (simp add: QutritStateVector_state_vector_def batch_size_def truthy_def Wires_def
        contains_wires_def list_all_iff subset_iff bind_def Let_def extra_def[symmetric] cw_def[symmetric] t1_def[symmetric])
  have "mset (map (\<lambda>a. shape t1 ! a) axes) = image_mset ((!) (shape t1)) (mset axes)" by simp
  also have "\<dots> = mset (map ((!) (shape t1)) [0..<length (shape t1)])" by (simp only: maxes mset_map)
  also have "\<dots> = mset (shape t1)" by (simp only: map_nth)
  finally have msh: "mset (map (\<lambda>a. shape t1 ! a) axes) =
      replicate_mset (length ws) 3 + replicate_mset (length order - length ws) 2"
    by (simp add: sh1 le)
  show ?thesis
    using res srt msh by (simp add: np_transpose_def axes_def)
qed

lemma reshape_state_batch_example:
  "reshape_state (State2D [[1, 0, 0], [0, 1, 0]]) True (Suc 0) =
     Inr \<lparr>shape = [2, 3], entries = (\<lambda>idx. [1, 0, 0, 0, 1, 0] ! flat_index [2, 3] idx 0)\<rparr>"
  by (simp add: reshape_state_def flat_data_def np_reshape_def)

section \<open>The properties of the specification\<close>

text \<open>
  C1.  \<open>QutritStateVector.state_vector\<close> with a wire order that strictly contains the
  operator's wires.  For the normalised state \<open>[1, 0, 0]\<close> on the wire \<open>0\<close> and the order
  \<open>[0, 1]\<close> the method returns a tensor of shape \<open>(3, 2)\<close>: the axis added for the wire
  \<open>1\<close> has size two and holds \<open>(amplitude, 0)\<close>, since \<open>stack\<close> joins two arrays.  A tensor
  with one axis of size three per target wire would have shape \<open>(3, 3)\<close>.  For the batch of
  the two states \<open>[1, 0, 0]\<close> and \<open>[0, 1, 0]\<close> on the wire \<open>0\<close> and the order \<open>[1, 0]\<close> the
  result has shape \<open>(2, 2, 3)\<close>, the batch axis first, where one axis of size three per
  target wire would give \<open>(2, 3, 3)\<close>.  The lemma
  \<open>QutritStateVector_extra_axes_have_size_two\<close> above shows the same for every wire order
  that adds wires.
\<close>

theorem QutritStateVector_pads_with_axis_of_size_two:
  "bind (QutritStateVector_state_vector
           \<lparr>wires = [0::nat], state_parameters = State1D [1, 0, 0]\<rparr> (Some [0, 1]))
     (\<lambda>t. Inr (shape t, ravel t)) = Inr ([3, 2], [1, 0, 0, 0, 0, 0]) \<and>
   bind (QutritStateVector_state_vector
           \<lparr>wires = [0::nat], state_parameters = State2D [[1, 0, 0], [0, 1, 0]]\<rparr> (Some [1, 0]))
     (\<lambda>t. Inr (shape t, ravel t)) = Inr ([2, 2, 3], [1, 0, 0, 0, 0, 0, 0, 1, 0, 0, 0, 0])"
proof -
  have single: "bind (QutritStateVector_state_vector
           \<lparr>wires = [0::nat], state_parameters = State1D [1, 0, 0]\<rparr> (Some [0, 1]))
     (\<lambda>t. Inr (shape t, ravel t)) = Inr ([3, 2], [1, 0, 0, 0, 0, 0])"
    by (simp add: QutritStateVector_state_vector_def reshape_state_def truthy_def batch_size_def
        flat_data_def np_reshape_def Wires_def contains_wires_def np_stack_last_def zeros_like_def
        nd_zeros_def np_transpose_def position_def ravel_def bind_def Let_def upt_rec
        numeral_2_eq_2 numeral_3_eq_3)
  have batch: "bind (QutritStateVector_state_vector
           \<lparr>wires = [0::nat], state_parameters = State2D [[1, 0, 0], [0, 1, 0]]\<rparr> (Some [1, 0]))
     (\<lambda>t. Inr (shape t, ravel t)) = Inr ([2, 2, 3], [1, 0, 0, 0, 0, 0, 0, 1, 0, 0, 0, 0])"
    by (simp add: QutritStateVector_state_vector_def reshape_state_batch_example truthy_def
        batch_size_def Wires_def contains_wires_def np_stack_last_def zeros_like_def nd_zeros_def
        np_transpose_def position_def ravel_def bind_def Let_def upt_rec)
  from single batch show ?thesis by (rule conjI)
qed

text \<open>
  C2.  \<open>compute_matrix\<close> of \<open>TS\<close> and of \<open>TT\<close> checks nothing: for the subspace
  \<open>[0, 0]\<close>, whose two elements are equal, both return a matrix, and so does the matrix of
  the instance \<open>TS(wires=0, subspace=[0, 0])\<close>; a subspace of three elements and one with
  negative elements are accepted too.  \<open>TX\<close> refuses \<open>[0, 0]\<close> with \<open>ValueError\<close>; what the
  checked gates refuse is stated by \<open>subspace_checks_malformed\<close> and
  \<open>checked_gates_reject\<close> above.
\<close>

theorem TS_TT_accept_duplicate_subspace:
  "TS_compute_matrix (PySeq [0, 0]) = Inr [[\<i>, 0, 0], [0, 1, 0], [0, 0, 1]] \<and>
   TT_compute_matrix (PySeq [0, 0]) = Inr [[exp (\<i> * of_real pi / 4), 0, 0], [0, 1, 0], [0, 0, 1]] \<and>
   bind (TS_init [0::nat] (PySeq [0, 0])) TS_matrix = Inr [[\<i>, 0, 0], [0, 1, 0], [0, 0, 1]] \<and>
   TS_compute_matrix (PySeq [0, 1, 2]) = Inr [[1, 0, 0], [0, \<i>, 0], [0, 0, 1]] \<and>
   TS_compute_matrix (PySeq [- 1, - 2]) = Inr [[1, 0, 0], [0, \<i>, 0], [0, 0, 1]] \<and>
   TX_compute_matrix (PySeq [0, 0]) = Inl ValueError"
  by (simp add: TS_compute_matrix_def TT_compute_matrix_def TS_init_def TS_subspace_def TS_matrix_def
      TX_compute_matrix_def prim_defs Let_def)

text \<open>
  C3.  As stated the claim fails: \<open>TShift.pow(3.5)\<close> delegates with the exponent
  \<open>0.5\<close>, not \<open>3.5\<close>.
\<close>

theorem TShift_pow_reduces_noninteger:
  "TShift_pow (PyFloat (7 / 2)) = Operation_pow (PyFloat (1 / 2)) \<and>
   TShift_pow (PyFloat (7 / 2)) \<noteq> Operation_pow (PyFloat (7 / 2))"
  by (simp add: TShift_pow_def)

text \<open>
  C3.  amended.  For a non-integer exponent \<open>z\<close>, \<open>pow\<close> of \<open>TCNOT\<close>, \<open>TX\<close>, \<open>TY\<close>,
  \<open>TZ\<close> and \<open>TH\<close> delegates with \<open>z\<close> unchanged.  \<open>pow\<close> of \<open>TShift\<close>, \<open>TClock\<close>, \<open>TAdd\<close>
  and \<open>TSWAP\<close> has no integer test: it delegates with \<open>z % period\<close> (period 3, 3, 3 and
  2), which is \<open>z\<close> itself exactly when \<open>0 \<le> z < period\<close>.
\<close>

theorem noninteger_pow_delegation:
  "TCNOT_pow (PyFloat r) = Operation_pow (PyFloat r) \<and>
   TX_pow (PyFloat r) = Operation_pow (PyFloat r) \<and>
   TY_pow (PyFloat r) = Operation_pow (PyFloat r) \<and>
   TZ_pow (PyFloat r) = Operation_pow (PyFloat r) \<and>
   TH_pow (PyFloat r) = Operation_pow (PyFloat r) \<and>
   TShift_pow (PyFloat r) = Operation_pow (PyFloat (r - 3 * of_int \<lfloor>r / 3\<rfloor>)) \<and>
   TClock_pow (PyFloat r) = Operation_pow (PyFloat (r - 3 * of_int \<lfloor>r / 3\<rfloor>)) \<and>
   TAdd_pow (PyFloat r) = Operation_pow (PyFloat (r - 3 * of_int \<lfloor>r / 3\<rfloor>)) \<and>
   TSWAP_pow (PyFloat r) = Operation_pow (PyFloat (r - 2 * of_int \<lfloor>r / 2\<rfloor>)) \<and>
   (TShift_pow (PyFloat r) = Operation_pow (PyFloat r)) = (0 \<le> r \<and> r < 3) \<and>
   (TClock_pow (PyFloat r) = Operation_pow (PyFloat r)) = (0 \<le> r \<and> r < 3) \<and>
   (TAdd_pow (PyFloat r) = Operation_pow (PyFloat r)) = (0 \<le> r \<and> r < 3) \<and>
   (TSWAP_pow (PyFloat r) = Operation_pow (PyFloat r)) = (0 \<le> r \<and> r < 2)"
  using float_mod_unchanged[of 3 r] float_mod_unchanged[of 2 r]
  by (simp add: TCNOT_pow_def TX_pow_def TY_pow_def TZ_pow_def TH_pow_def TShift_pow_def
      TClock_pow_def TAdd_pow_def TSWAP_pow_def)

text \<open>
  C4.  As stated the claim fails for the phase gates: the instance
  \<open>TS(wires=0, subspace=[1, 0])\<close> exposes the subspace \<open>(0, 1)\<close>, and so does \<open>TT\<close>.  The
  matrix of that instance has the phase \<open>\<i>\<close> at the basis state \<open>1\<close>, where the static call
  \<open>TS.compute_matrix([1, 0])\<close> puts it at the second listed element \<open>0\<close>.
\<close>

theorem TS_subspace_sorts_counterexample:
  "bind (TS_init [0::nat] (PySeq [1, 0])) TS_subspace = Inr [0, 1] \<and>
   bind (TS_init [0::nat] (PySeq [1, 0])) TS_subspace \<noteq> Inr [1, 0] \<and>
   bind (TT_init [0::nat] (PySeq [1, 0])) TT_subspace = Inr [0, 1] \<and>
   bind (TS_init [0::nat] (PySeq [1, 0])) TS_matrix = Inr [[1, 0, 0], [0, \<i>, 0], [0, 0, 1]] \<and>
   TS_compute_matrix (PySeq [1, 0]) = Inr [[\<i>, 0, 0], [0, 1, 0], [0, 0, 1]]"
  by (simp add: TS_init_def TS_subspace_def TT_init_def TT_subspace_def TS_matrix_def
      TS_compute_matrix_def prim_defs Let_def)

text \<open>
  C4.  amended.  For a valid subspace \<open>[a, b]\<close> in either order, the \<open>subspace\<close>
  property of a \<open>TZ\<close> instance is \<open>(a, b)\<close>, in the order given, and the matrix of the
  instance is the identity with \<open>-1\<close> at the second element \<open>b\<close>.  The \<open>subspace\<close> property
  of a \<open>TS\<close> or \<open>TT\<close> instance is the sorted pair \<open>(min a b, max a b)\<close>, and the matrix of
  the instance is the identity with the phase (\<open>\<i>\<close> for \<open>TS\<close>, \<open>exp (\<i> \<pi> / 4)\<close> for \<open>TT\<close>) at
  the larger element.
\<close>

theorem subspace_property_order:
  assumes "a \<in> {0, 1, 2}" "b \<in> {0, 1, 2}" "a \<noteq> b"
  shows "bind (TZ_init ws (PySeq [a, b])) TZ_subspace = Inr [a, b] \<and>
     bind (TZ_init ws (PySeq [a, b])) TZ_matrix =
       Inr (map (\<lambda>i. map (\<lambda>j. if i = j then (if int i = b then - 1 else 1) else 0) [0..<3]) [0..<3]) \<and>
     bind (TS_init ws (PySeq [a, b])) TS_subspace = Inr [min a b, max a b] \<and>
     bind (TT_init ws (PySeq [a, b])) TT_subspace = Inr [min a b, max a b] \<and>
     bind (TS_init ws (PySeq [a, b])) TS_matrix =
       Inr (map (\<lambda>i. map (\<lambda>j. if i = j then (if int i = max a b then \<i> else 1) else 0) [0..<3]) [0..<3]) \<and>
     bind (TT_init ws (PySeq [a, b])) TT_matrix =
       Inr (map (\<lambda>i. map (\<lambda>j. if i = j then (if int i = max a b then exp (\<i> * of_real pi / 4) else 1)
                               else 0) [0..<3]) [0..<3])"
  using valid_cases[OF assms]
  apply (elim insertE emptyE)
       apply (simp_all add: TZ_init_def TZ_subspace_def TZ_matrix_def TZ_compute_matrix_def
      TS_init_def TS_subspace_def TS_matrix_def TS_compute_matrix_def
      TT_init_def TT_subspace_def TT_matrix_def TT_compute_matrix_def prim_defs Let_def)
  done

theorem subspace_property_order_witness:
  "bind (TZ_init [0::nat] (PySeq [1, 0])) TZ_subspace = Inr [1, 0] \<and>
   bind (TZ_init [0::nat] (PySeq [1, 0])) TZ_matrix = Inr [[- 1, 0, 0], [0, 1, 0], [0, 0, 1]] \<and>
   bind (TZ_init [0::nat] (PySeq [0, 1])) TZ_matrix = Inr [[1, 0, 0], [0, - 1, 0], [0, 0, 1]] \<and>
   bind (TS_init [0::nat] (PySeq [2, 1])) TS_subspace = Inr [1, 2] \<and>
   bind (TS_init [0::nat] (PySeq [2, 1])) TS_matrix = Inr [[1, 0, 0], [0, 1, 0], [0, 0, \<i>]]"
  using subspace_property_order[of 1 0 "[0::nat]"] subspace_property_order[of 0 1 "[0::nat]"]
    subspace_property_order[of 2 1 "[0::nat]"]
  by (simp add: upt_rec)

text \<open>
  C5.  The cubes of the \<open>TShift\<close> and \<open>TClock\<close> matrices and the squares of the
  \<open>TSWAP\<close>, \<open>TX\<close>, \<open>TY\<close>, \<open>TZ\<close>, \<open>TH\<close> and \<open>TCNOT\<close> matrices (for every valid subspace
  \<open>[a, b]\<close> and every control value) are the identity, and for an integer exponent \<open>z\<close>
  each gate's \<open>pow\<close> delegates with \<open>z\<close> reduced modulo 3 (shift and clock) or modulo 2
  (the others).
\<close>

theorem gate_periods_and_integer_pow:
  assumes "a \<in> {0, 1, 2}" "b \<in> {0, 1, 2}" "a \<noteq> b"
  shows "matrix_power TShift_compute_matrix 3 = np_eye 3 \<and>
    matrix_power TClock_compute_matrix 3 = np_eye 3 \<and>
    matrix_power TSWAP_compute_matrix 2 = np_eye 9 \<and>
    bind (TX_compute_matrix (PySeq [a, b])) (\<lambda>m. Inr (matrix_power m 2)) = Inr (np_eye 3) \<and>
    bind (TY_compute_matrix (PySeq [a, b])) (\<lambda>m. Inr (matrix_power m 2)) = Inr (np_eye 3) \<and>
    bind (TZ_compute_matrix (PySeq [a, b])) (\<lambda>m. Inr (matrix_power m 2)) = Inr (np_eye 3) \<and>
    bind (TH_compute_matrix (PySeq [a, b])) (\<lambda>m. Inr (matrix_power m 2)) = Inr (np_eye 3) \<and>
    bind (TCNOT_compute_matrix (PySeq [a, b]) cv) (\<lambda>m. Inr (matrix_power m 2)) = Inr (np_eye 9) \<and>
    TShift_pow (PyIntNum z) = Operation_pow (PyIntNum (z mod 3)) \<and>
    TClock_pow (PyIntNum z) = Operation_pow (PyIntNum (z mod 3)) \<and>
    TSWAP_pow (PyIntNum z) = Operation_pow (PyIntNum (z mod 2)) \<and>
    TX_pow (PyIntNum z) = Operation_pow (PyIntNum (z mod 2)) \<and>
    TY_pow (PyIntNum z) = Operation_pow (PyIntNum (z mod 2)) \<and>
    TZ_pow (PyIntNum z) = Operation_pow (PyIntNum (z mod 2)) \<and>
    TH_pow (PyIntNum z) = Operation_pow (PyIntNum (z mod 2)) \<and>
    TCNOT_pow (PyIntNum z) = Operation_pow (PyIntNum (z mod 2))"
  using TShift_cubed TClock_cubed TSWAP_squared TX_squared[OF assms] TY_squared[OF assms]
    TZ_squared[OF assms] TH_squared[OF assms] TCNOT_squared[OF assms, of cv]
  by (simp add: TShift_pow_def TClock_pow_def TSWAP_pow_def TX_pow_def TY_pow_def TZ_pow_def
      TH_pow_def TCNOT_pow_def)

theorem gate_periods_and_integer_pow_witness:
  "bind (TX_compute_matrix (PySeq [0, 1])) (\<lambda>m. Inr (matrix_power m 2)) = Inr (np_eye 3) \<and>
   bind (TH_compute_matrix (PySeq [0, 1])) (\<lambda>m. Inr (matrix_power m 2)) = Inr (np_eye 3) \<and>
   bind (TCNOT_compute_matrix (PySeq [0, 1]) (PyInt 2)) (\<lambda>m. Inr (matrix_power m 2)) = Inr (np_eye 9) \<and>
   TShift_pow (PyIntNum (- 5)) = Operation_pow (PyIntNum 1) \<and>
   TX_pow (PyIntNum (- 5)) = Operation_pow (PyIntNum 1) \<and>
   TCNOT_pow (PyIntNum 4) = Operation_pow (PyIntNum 0)"
  using gate_periods_and_integer_pow[of 0 1 "PyInt 2" "- 5"]
    gate_periods_and_integer_pow[of 0 1 "PyInt 2" 4]
  by simp

text \<open>
  C6.  The canonical matrix of \<open>TShift\<close> sends the basis vector \<open>i\<close> to the basis vector
  \<open>(i + 1) mod 3\<close>, its cube is the identity, and \<open>compute_eigvals\<close> returns, as a
  multiset and as a set, exactly \<open>1\<close>, \<open>\<omega>\<close> and \<open>\<omega>\<^sup>2\<close> with \<open>\<omega> = exp (2 \<pi> \<i> / 3)\<close>; the
  three values are pairwise different.
\<close>

theorem TShift_cyclic_order3_eigvals:
  "map (\<lambda>i. mat_vec TShift_compute_matrix (unit_vec 3 i)) [0..<3]
     = map (\<lambda>i. unit_vec 3 ((i + 1) mod 3)) [0..<3] \<and>
   matrix_power TShift_compute_matrix 3 = np_eye 3 \<and>
   mset TShift_compute_eigvals = {#1, OMEGA, OMEGA ^ 2#} \<and>
   set TShift_compute_eigvals = {1, OMEGA, OMEGA ^ 2} \<and>
   distinct TShift_compute_eigvals \<and>
   OMEGA = exp (2 * of_real pi * \<i> / 3)"
proof -
  have "map (\<lambda>i. mat_vec TShift_compute_matrix (unit_vec 3 i)) [0..<3]
     = map (\<lambda>i. unit_vec 3 ((i + 1) mod 3)) [0..<3]"
    by (simp add: TShift_compute_matrix_def mat_vec_def unit_vec_def dot_def upt_rec)
  moreover have "mset TShift_compute_eigvals = {#1, OMEGA, OMEGA ^ 2#}"
    by (simp add: TShift_compute_eigvals_def)
  moreover have "set TShift_compute_eigvals = {1, OMEGA, OMEGA ^ 2}"
    by (auto simp: TShift_compute_eigvals_def)
  moreover have "distinct TShift_compute_eigvals"
    by (simp add: TShift_compute_eigvals_def complex_eq_iff power2_eq_square OMEGA_Re OMEGA_Im)
  ultimately show ?thesis
    using TShift_cubed by (simp add: OMEGA_def)
qed

text \<open>
  C7.  For trits \<open>n\<close>, as many as the operator has wires,
  \<open>QutritBasisState.state_vector\<close> returns a tensor of shape \<open>(3,) * m\<close> whose entry is
  \<open>1\<close> at one index tuple and \<open>0\<close> at every other.  Without a wire order \<open>m\<close> is the
  number of wires and the index tuple is \<open>n\<close>; with a duplicate-free wire order that
  contains the operator's wires \<open>m\<close> is its length, and the index tuple holds, at the
  position of each wire of the order, the trit of that wire, or \<open>0\<close> for a wire the
  operator does not have.  The index tuple lies inside the tensor.
\<close>

theorem QutritBasisState_state_vector_one_hot:
  assumes trits: "list_all (\<lambda>i. i \<in> {0, 1, 2}) n"
    and len: "length n = length ws"
    and dws: "distinct ws"
    and dord: "distinct order"
    and sub: "set ws \<subseteq> set order"
  shows "(\<exists>t. QutritBasisState_state_vector \<lparr>wires = ws, basis_parameters = n\<rparr> None = Inr t \<and>
            shape t = replicate (length ws) 3 \<and>
            (\<forall>j. length j = length ws \<longrightarrow> entries t j = (if j = map nat n then 1 else 0))) \<and>
         (\<exists>t. QutritBasisState_state_vector \<lparr>wires = ws, basis_parameters = n\<rparr> (Some order) = Inr t \<and>
            shape t = replicate (length order) 3 \<and>
            (\<forall>j. length j = length order \<longrightarrow> entries t j =
               (if j = map (\<lambda>w. case map_of (zip ws n) w of None \<Rightarrow> 0 | Some v \<Rightarrow> nat v) order
                then 1 else 0))) \<and>
         list_all (\<lambda>i. i < 3) (map nat n) \<and>
         list_all (\<lambda>i. i < 3)
           (map (\<lambda>w. case map_of (zip ws n) w of None \<Rightarrow> 0 | Some v \<Rightarrow> nat v) order)"
proof -
  have ex: "\<not> list_ex (\<lambda>i. i \<notin> {0, 1, 2}) n"
    using trits by (simp add: list_ex_iff list_all_iff)
  have first: "\<exists>t. QutritBasisState_state_vector \<lparr>wires = ws, basis_parameters = n\<rparr> None = Inr t \<and>
            shape t = replicate (length ws) 3 \<and>
            (\<forall>j. length j = length ws \<longrightarrow> entries t j = (if j = map nat n then 1 else 0))"
    using ex len np_indices_trits[OF trits]
    by (simp add: QutritBasisState_state_vector_def nd_setitem_def nd_zeros_def bind_def)
  let ?tgt = "map (\<lambda>p. case map_of (zip ws n) (order ! p) of None \<Rightarrow> replicate (length order) 0 ! p | Some v \<Rightarrow> v)
                 [0..<length order]"
  have asg: "assign_indices order (zip ws n) (replicate (length order) 0) = Inr ?tgt"
    using assign_indices_eq[OF dord, of "zip ws n" "replicate (length order) 0"] dws sub len
    by simp
  have tgt_eq: "?tgt = map (\<lambda>w. case map_of (zip ws n) w of None \<Rightarrow> 0 | Some v \<Rightarrow> v) order"
    by (rule nth_equalityI) (auto split: option.split)
  have tgt_trits: "list_all (\<lambda>i. i \<in> {0, 1, 2}) ?tgt"
  proof -
    have "\<And>w v. map_of (zip ws n) w = Some v \<Longrightarrow> v \<in> {0, 1, 2}"
      using trits by (metis in_set_zipE list_all_iff map_of_SomeD)
    then show ?thesis unfolding tgt_eq by (auto simp: list_all_iff split: option.split)
  qed
  have nat_tgt: "map nat ?tgt = map (\<lambda>w. case map_of (zip ws n) w of None \<Rightarrow> 0 | Some v \<Rightarrow> nat v) order"
    unfolding tgt_eq by (auto split: option.split)
  have cw: "contains_wires order ws"
    using sub by (auto simp: contains_wires_def list_all_iff)
  have second: "\<exists>t. QutritBasisState_state_vector \<lparr>wires = ws, basis_parameters = n\<rparr> (Some order) = Inr t \<and>
            shape t = replicate (length order) 3 \<and>
            (\<forall>j. length j = length order \<longrightarrow> entries t j =
               (if j = map (\<lambda>w. case map_of (zip ws n) w of None \<Rightarrow> 0 | Some v \<Rightarrow> nat v) order
                then 1 else 0))"
    using ex len dord cw asg np_indices_trits[OF tgt_trits] nat_tgt
    by (simp add: QutritBasisState_state_vector_def Wires_def nd_setitem_def nd_zeros_def bind_def)
  have inside: "list_all (\<lambda>i. i < 3) (map nat n)"
    using trits by (auto simp: list_all_iff)
  have "list_all (\<lambda>i. i < 3) (map nat ?tgt)"
    using tgt_trits by (auto simp: list_all_iff)
  then have inside': "list_all (\<lambda>i. i < 3)
      (map (\<lambda>w. case map_of (zip ws n) w of None \<Rightarrow> 0 | Some v \<Rightarrow> nat v) order)"
    by (simp only: nat_tgt)
  from first second inside inside' show ?thesis by blast
qed

theorem QutritBasisState_state_vector_one_hot_witness:
  "(\<exists>t. QutritBasisState_state_vector \<lparr>wires = [0::nat, 1], basis_parameters = [2, 2]\<rparr> None = Inr t \<and>
        shape t = [3, 3] \<and> ravel t = [0, 0, 0, 0, 0, 0, 0, 0, 1]) \<and>
   (\<exists>t. QutritBasisState_state_vector \<lparr>wires = [0::nat, 1], basis_parameters = [1, 2]\<rparr> (Some [1, 2, 0]) = Inr t \<and>
        shape t = [3, 3, 3] \<and> entries t [2, 0, 1] = 1 \<and> entries t [1, 2, 0] = 0)"
proof -
  have h: "list_all (\<lambda>i. i \<in> {0, 1, 2}) [2, 2::int]" "length [2, 2::int] = length [0::nat, 1]"
    "distinct [0::nat, 1]" "set [0::nat, 1] \<subseteq> set [0, 1]"
    "list_all (\<lambda>i. i \<in> {0, 1, 2}) [1, 2::int]" "length [1, 2::int] = length [0::nat, 1]"
    "distinct [1::nat, 2, 0]" "set [0::nat, 1] \<subseteq> set [1, 2, 0]"
    by simp_all
  from QutritBasisState_state_vector_one_hot[OF h(1,2,3,3,4)]
  obtain t where t: "QutritBasisState_state_vector \<lparr>wires = [0::nat, 1], basis_parameters = [2, 2]\<rparr> None = Inr t"
    "shape t = replicate (length [0::nat, 1]) 3"
    "\<forall>j. length j = length [0::nat, 1] \<longrightarrow> entries t j = (if j = map nat [2, 2] then 1 else 0)"
    by blast
  have "ravel t = [0, 0, 0, 0, 0, 0, 0, 0, 1]"
    using t(2,3) by (simp add: ravel_def upt_rec numeral_2_eq_2 numeral_3_eq_3)
  with t have first: "\<exists>t. QutritBasisState_state_vector \<lparr>wires = [0::nat, 1], basis_parameters = [2, 2]\<rparr> None = Inr t \<and>
        shape t = [3, 3] \<and> ravel t = [0, 0, 0, 0, 0, 0, 0, 0, 1]"
    by (simp add: numeral_2_eq_2)
  from QutritBasisState_state_vector_one_hot[OF h(5,6,3,7,8)]
  obtain u where u: "QutritBasisState_state_vector \<lparr>wires = [0::nat, 1], basis_parameters = [1, 2]\<rparr> (Some [1, 2, 0]) = Inr u"
    "shape u = replicate (length [1::nat, 2, 0]) 3"
    "\<forall>j. length j = length [1::nat, 2, 0] \<longrightarrow> entries u j =
       (if j = map (\<lambda>w. case map_of (zip [0::nat, 1] [1, 2]) w of None \<Rightarrow> 0 | Some v \<Rightarrow> nat v) [1, 2, 0]
        then 1 else 0)"
    by blast
  from u(3) have "entries u [2, 0, 1] = 1" "entries u [1, 2, 0] = 0"
    by simp_all
  with u have second: "\<exists>t. QutritBasisState_state_vector \<lparr>wires = [0::nat, 1], basis_parameters = [1, 2]\<rparr> (Some [1, 2, 0]) = Inr t \<and>
        shape t = [3, 3, 3] \<and> entries t [2, 0, 1] = 1 \<and> entries t [1, 2, 0] = 0"
    by (simp add: numeral_3_eq_3)
  from first second show ?thesis by blast
qed

text \<open>
  C8.  A \<open>TS\<close> or \<open>TT\<close> instance built without a subspace (the default \<open>None\<close>)
  raises \<open>ValueError\<close>.  Every instance that is built was given an iterable subspace and
  stores a tuple, never \<open>None\<close>, in its hyperparameters, which is what its matrix is
  computed from; so the branch \<open>subspace is None\<close> of \<open>compute_matrix\<close>, which returns the
  diagonal matrix with the fixed phases, is taken only by a static call.
\<close>

theorem TS_TT_require_subspace:
  "TS_init ws PyNone = Inl ValueError \<and> TT_init ws PyNone = Inl ValueError \<and>
   (\<forall>s self. TS_init ws s = Inr self \<longrightarrow>
      has_iter s \<and> hyperparameters self \<noteq> PyNone \<and> TS_matrix self = TS_compute_matrix (hyperparameters self)) \<and>
   (\<forall>s self. TT_init ws s = Inr self \<longrightarrow>
      has_iter s \<and> hyperparameters self \<noteq> PyNone \<and> TT_matrix self = TT_compute_matrix (hyperparameters self)) \<and>
   TS_compute_matrix PyNone = Inr (map (map (\<lambda>x. ZETA ^ 8 * x)) (np_diag [1, 1, OMEGA])) \<and>
   TT_compute_matrix PyNone = Inr (np_diag [1, ZETA, ZETA ^ 8])"
  by (auto simp add: TS_init_def TT_init_def TS_compute_matrix_def TT_compute_matrix_def TS_matrix_def TT_matrix_def
      bind_def Let_def split: if_splits sum.splits)

theorem TS_TT_require_subspace_witness:
  "TS_init [0::nat] PyNone = Inl ValueError \<and> TT_init [0::nat] PyNone = Inl ValueError \<and>
   TS_init [0::nat] (PySeq [0, 1]) =
     Inr \<lparr>wires = [0], subspace_attr = PySeq [0, 1], hyperparameters = PySeq [0, 1]\<rparr> \<and>
   hyperparameters \<lparr>wires = [0::nat], subspace_attr = PySeq [0, 1], hyperparameters = PySeq [0, 1]\<rparr> \<noteq> PyNone \<and>
   TT_init [0::nat] (PySeq [0, 1]) =
     Inr \<lparr>wires = [0], subspace_attr = PySeq [0, 1], hyperparameters = PySeq [0, 1]\<rparr>"
proof -
  have i: "TS_init [0::nat] (PySeq [0, 1]) =
     Inr \<lparr>wires = [0], subspace_attr = PySeq [0, 1], hyperparameters = PySeq [0, 1]\<rparr>"
     "TT_init [0::nat] (PySeq [0, 1]) =
     Inr \<lparr>wires = [0], subspace_attr = PySeq [0, 1], hyperparameters = PySeq [0, 1]\<rparr>"
    by (simp_all add: TS_init_def TS_subspace_def TT_init_def TT_subspace_def bind_def Let_def)
  from TS_TT_require_subspace[of "[0::nat]"] i show ?thesis by blast
qed

text \<open>
  C9.  \<open>TCNOT.compute_matrix\<close> with a control value other than \<open>0\<close> and \<open>1\<close>
  returns what it returns for the control value \<open>2\<close>: when \<open>TX.compute_matrix\<close> gives the
  matrix \<open>X\<close>, the 9 by 9 identity with \<open>X\<close> in rows and columns 6 to 8; when it raises,
  that error and no other.
\<close>

theorem TCNOT_control_value_unvalidated:
  assumes "cv \<noteq> PyInt 0" "cv \<noteq> PyInt 1"
  shows "TCNOT_compute_matrix s cv = TCNOT_compute_matrix s (PyInt 2) \<and>
    (\<forall>X. TX_compute_matrix s = Inr X \<longrightarrow>
       TCNOT_compute_matrix s cv =
         Inr (map (\<lambda>i. map (\<lambda>j. if 6 \<le> i \<and> 6 \<le> j then X ! (i - 6) ! (j - 6)
                                 else if i = j then 1 else 0) [0..<9]) [0..<9])) \<and>
    (\<forall>e. TX_compute_matrix s = Inl e \<longrightarrow> TCNOT_compute_matrix s cv = Inl e)"
proof -
  have "TCNOT_compute_matrix s cv = TCNOT_compute_matrix s (PyInt 2)"
    using assms by (simp add: TCNOT_value)
  moreover have "TCNOT_compute_matrix s cv =
         Inr (map (\<lambda>i. map (\<lambda>j. if 6 \<le> i \<and> 6 \<le> j then X ! (i - 6) ! (j - 6)
                                 else if i = j then 1 else 0) [0..<9]) [0..<9])"
    if "TX_compute_matrix s = Inr X" for X
    using assms that block6_explicit[OF TX_range[OF that]] by (simp add: TCNOT_value bind_def)
  moreover have "TCNOT_compute_matrix s cv = Inl e" if "TX_compute_matrix s = Inl e" for e
    using that by (simp add: TCNOT_value bind_def)
  ultimately show ?thesis by blast
qed

theorem TCNOT_control_value_unvalidated_witness:
  "TCNOT_compute_matrix (PySeq [0, 1]) (PyInt 3) = TCNOT_compute_matrix (PySeq [0, 1]) (PyInt 2) \<and>
   TCNOT_compute_matrix (PySeq [0, 1]) (PyInt (- 1)) =
     Inr [[1, 0, 0, 0, 0, 0, 0, 0, 0],
          [0, 1, 0, 0, 0, 0, 0, 0, 0],
          [0, 0, 1, 0, 0, 0, 0, 0, 0],
          [0, 0, 0, 1, 0, 0, 0, 0, 0],
          [0, 0, 0, 0, 1, 0, 0, 0, 0],
          [0, 0, 0, 0, 0, 1, 0, 0, 0],
          [0, 0, 0, 0, 0, 0, 0, 1, 0],
          [0, 0, 0, 0, 0, 0, 1, 0, 0],
          [0, 0, 0, 0, 0, 0, 0, 0, 1]] \<and>
   TCNOT_compute_matrix (PyInt 5) (PyInt 3) = Inl TypeError"
proof -
  have x: "TX_compute_matrix (PySeq [0, 1]) = Inr [[0, 1, 0], [1, 0, 0], [0, 0, 1]]"
    by (rule TX_values)
  have e: "TX_compute_matrix (PyInt 5) = Inl TypeError"
    by (simp add: checked_gates_reject subspace_checks_malformed)
  have c: "PyInt 3 \<noteq> PyInt 0" "PyInt 3 \<noteq> PyInt 1" "PyInt (- 1) \<noteq> PyInt 0" "PyInt (- 1) \<noteq> PyInt 1"
    by simp_all
  note t1 = TCNOT_control_value_unvalidated[OF c(1,2), of "PySeq [0, 1]"]
  note t2 = TCNOT_control_value_unvalidated[OF c(3,4), of "PySeq [0, 1]"]
  note t3 = TCNOT_control_value_unvalidated[OF c(1,2), of "PyInt 5"]
  from t1 have "TCNOT_compute_matrix (PySeq [0, 1]) (PyInt 3) = TCNOT_compute_matrix (PySeq [0, 1]) (PyInt 2)"
    by (rule conjunct1)
  moreover from t2 x have "TCNOT_compute_matrix (PySeq [0, 1]) (PyInt (- 1)) =
     Inr (map (\<lambda>i. map (\<lambda>j. if 6 \<le> i \<and> 6 \<le> j then [[0, 1, 0], [1, 0, 0], [0, 0, 1]] ! (i - 6) ! (j - 6)
                                 else if i = j then 1 else 0) [0..<9]) [0..<9])"
    by blast
  moreover from t3 e have "TCNOT_compute_matrix (PyInt 5) (PyInt 3) = Inl TypeError"
    by blast
  ultimately show ?thesis
    by (simp add: upt_rec)
qed

text \<open>
  C10.  For a valid subspace \<open>[a, b]\<close> the matrix of \<open>TZ.compute_matrix\<close> is the
  identity with the entry \<open>(b, b)\<close> replaced by \<open>-1\<close>, so two valid subspaces with the
  same second element give the same matrix.
\<close>

theorem TZ_matrix_depends_on_second_element:
  assumes "a \<in> {0, 1, 2}" "a' \<in> {0, 1, 2}" "b \<in> {0, 1, 2}" "a \<noteq> b" "a' \<noteq> b"
  shows "TZ_compute_matrix (PySeq [a, b]) =
           Inr (map (\<lambda>i. map (\<lambda>j. if i = j then (if int i = b then - 1 else 1) else 0) [0..<3]) [0..<3]) \<and>
         TZ_compute_matrix (PySeq [a', b]) = TZ_compute_matrix (PySeq [a, b])"
proof -
  have one: "TZ_compute_matrix (PySeq [c, b]) =
           Inr (map (\<lambda>i. map (\<lambda>j. if i = j then (if int i = b then - 1 else 1) else 0) [0..<3]) [0..<3])"
    if "c \<in> {0, 1, 2}" "c \<noteq> b" for c
    using valid_cases[OF that(1) assms(3) that(2)]
    by (elim insertE emptyE) (simp_all add: TZ_compute_matrix_def prim_defs)
  from one[OF assms(1,4)] one[OF assms(2,5)] show ?thesis by simp
qed

theorem TZ_matrix_depends_on_second_element_witness:
  "TZ_compute_matrix (PySeq [0, 1]) = Inr [[1, 0, 0], [0, - 1, 0], [0, 0, 1]] \<and>
   TZ_compute_matrix (PySeq [2, 1]) = TZ_compute_matrix (PySeq [0, 1])"
  using TZ_matrix_depends_on_second_element[of 0 2 1] by (simp add: upt_rec)

end
